theory Spec2Isabelle
  imports Main "HOL-Library.Word" "HOL-Library.Signed_Division"
begin

unbundle bit_operations_syntax

section \<open>Data model of the ledger store (chain/store/store.go)\<close>

type_synonym byte = "8 word"
type_synonym bytes = "byte list"
type_synonym uint32 = "32 word"
type_synonym Fixed64 = "64 word"

text \<open>
  \<open>common.Uint256\<close> is a Go array \<open>[32]uint8\<close>: a value of exactly 256 bits.
  \<open>common.Uint160\<close> is \<open>[20]uint8\<close>.
\<close>

type_synonym Uint256 = "256 word"
type_synonym Uint160 = "160 word"

text \<open>
  Errors are values. \<open>Panic\<close> stands for a Go runtime panic (slice index out of range,
  nil dereference, integer division by zero); \<open>External\<close> is an error produced by a
  collaborator outside store.go, carried through unchanged.
\<close>

datatype error =
    NotFound
  | WriteFailed
  | LenNot32
  | UnexpectedEOF
  | UnsupportedTransactionType
  | StateRootNotEqual Uint256 Uint256
  | InvalidHeightToUpdateDonation
  | ToHeightLessThanFromHeight uint32 uint32
  | GenesisBlockNotInBlockStore
  | ResetDBError error
  | UnknownStatePruningMode string
  | External string
  | Panic

subsection \<open>Byte encodings used by store.go\<close>

text \<open>\<open>binary.LittleEndian.PutUint32\<close> and \<open>binary.LittleEndian.Uint32\<close>; the latter
  panics on a slice shorter than four bytes.\<close>

definition PutUint32 :: "uint32 \<Rightarrow> bytes" where
  "PutUint32 v = [ucast v, ucast (drop_bit 8 v), ucast (drop_bit 16 v), ucast (drop_bit 24 v)]"

definition LittleEndianUint32 :: "bytes \<Rightarrow> error + uint32" where
  "LittleEndianUint32 b =
     (if length b < 4 then Inl Panic
      else Inr (ucast (b ! 0) OR push_bit 8 (ucast (b ! 1))
                OR push_bit 16 (ucast (b ! 2)) OR push_bit 24 (ucast (b ! 3))))"

text \<open>Slicing \<open>value[4:]\<close> panics when the slice has fewer than four bytes.\<close>

definition sliceFrom4 :: "bytes \<Rightarrow> error + bytes" where
  "sliceFrom4 b = (if length b < 4 then Inl Panic else Inr (drop 4 b))"

text \<open>
  Modelled from the spec: the helpers of package \<open>serialization\<close> and \<open>common\<close> that
  store.go calls are not among the sources. \<open>WriteUint32\<close>/\<open>ReadUint32\<close> move four
  little-endian bytes, a \<open>Uint256\<close> is written as its 32 bytes and
  \<open>Uint256ParseFromBytes\<close> accepts exactly 32 bytes; a \<open>Fixed64\<close> is eight
  little-endian bytes. A reader is the list of bytes not yet consumed.
\<close>

definition ReadUint32 :: "bytes \<Rightarrow> error + (uint32 \<times> bytes)" where
  "ReadUint32 r =
     (if length r < 4 then Inl UnexpectedEOF
      else case LittleEndianUint32 (take 4 r) of
             Inl e \<Rightarrow> Inl e
           | Inr v \<Rightarrow> Inr (v, drop 4 r))"

definition ToArray :: "Uint256 \<Rightarrow> bytes" where
  "ToArray u = map (\<lambda>i. ucast (drop_bit (8 * i) u)) [0..<32]"

definition Uint256FromArray :: "bytes \<Rightarrow> Uint256" where
  "Uint256FromArray b = word_rcat (rev b)"

definition Uint256ParseFromBytes :: "bytes \<Rightarrow> error + Uint256" where
  "Uint256ParseFromBytes f =
     (if length f \<noteq> 32 then Inl LenNot32 else Inr (Uint256FromArray f))"

definition EmptyUint256 :: Uint256 where
  "EmptyUint256 = 0"

text \<open>\<open>Uint256.Deserialize\<close> on a reader: the result is the value read (the receiver is
  left as it was on a short read) and the rest of the reader.\<close>

definition Uint256Deserialize :: "Uint256 \<Rightarrow> bytes \<Rightarrow> Uint256 \<times> bytes" where
  "Uint256Deserialize u r =
     (if length r < 32 then (u, []) else (Uint256FromArray (take 32 r), drop 32 r))"

definition Fixed64Serialize :: "Fixed64 \<Rightarrow> bytes" where
  "Fixed64Serialize a = map (\<lambda>i. ucast (drop_bit (8 * i) a)) [0..<8]"

definition Fixed64Deserialize :: "bytes \<Rightarrow> error + (Fixed64 \<times> bytes)" where
  "Fixed64Deserialize r =
     (if length r < 8 then Inl UnexpectedEOF
      else Inr (word_rcat (rev (take 8 r)), drop 8 r))"

subsection \<open>Blocks, headers and transactions\<close>

text \<open>
  Modelled from the spec: packages \<open>block\<close>, \<open>transaction\<close> and \<open>pb\<close> are not among the
  sources. The records keep the fields store.go reads under the names it uses
  (\<open>b.Header.UnsignedHeader.Height\<close>, \<open>txn.UnsignedTx.Payload.Type\<close>); every field the
  store never reads is collected in one uninterpreted byte string. The payload type is
  a protobuf enumeration: the eleven named kinds, or any other tag.
\<close>

datatype PayloadType =
    COINBASE_TYPE
  | SIG_CHAIN_TXN_TYPE
  | TRANSFER_ASSET_TYPE
  | ISSUE_ASSET_TYPE
  | REGISTER_NAME_TYPE
  | TRANSFER_NAME_TYPE
  | DELETE_NAME_TYPE
  | SUBSCRIBE_TYPE
  | UNSUBSCRIBE_TYPE
  | GENERATE_ID_TYPE
  | NANO_PAY_TYPE
  | OTHER_TYPE int

record Payload =
  Type :: PayloadType
  Data :: bytes

record UnsignedTx =
  Payload :: Payload
  TxRest :: bytes

record Transaction =
  UnsignedTx :: UnsignedTx
  Programs :: bytes

record UnsignedHeader =
  Height :: uint32
  StateRoot :: bytes
  HeaderRest :: bytes

record Header =
  UnsignedHeader :: UnsignedHeader
  Signature :: bytes

record Block =
  Header :: Header
  Transactions :: "Transaction list"

subsection \<open>The key-value engine\<close>

text \<open>
  Modelled from the spec: package \<open>db\<close> (the key constructors and the \<open>IStore\<close>
  engine) is not among the sources. Keys of different namespaces never coincide, so
  a key is a constructor applied to its argument. The engine offers point get and put
  and a batch: writes staged between \<open>NewBatch\<close> and \<open>BatchCommit\<close> become durable
  together, in staging order, or not at all. A get fails on a missing key. \<open>faults\<close>
  is the oracle for the engine's own write failures: each durable write consumes one
  entry, and \<open>True\<close> makes that write fail without effect.
\<close>

datatype key =
    VersionKey
  | HeaderKey Uint256
  | BlockhashKey uint32
  | TransactionKey Uint256
  | CurrentStateTrie
  | CurrentBlockHashKey
  | DonationKey uint32
  | TrieRefCountHeightKey
  | TriePrunedHeightKey
  | TrieCompactHeightKey
  | TrieNodeKey bytes

datatype batch_op = BPut key bytes | BDelete key

record IStore =
  durable :: "(key \<times> bytes) list"
  batch :: "batch_op list"
  faults :: "bool list"

definition Get :: "IStore \<Rightarrow> key \<Rightarrow> error + bytes" where
  "Get s k = (case map_of (durable s) k of None \<Rightarrow> Inl NotFound | Some v \<Rightarrow> Inr v)"

fun writeKV :: "key \<Rightarrow> bytes \<Rightarrow> (key \<times> bytes) list \<Rightarrow> (key \<times> bytes) list" where
  "writeKV k v [] = [(k, v)]"
| "writeKV k v ((k', v') # kvs) =
     (if k' = k then (k, v) # kvs else (k', v') # writeKV k v kvs)"

fun applyOp :: "(key \<times> bytes) list \<Rightarrow> batch_op \<Rightarrow> (key \<times> bytes) list" where
  "applyOp kvs (BPut k v) = writeKV k v kvs"
| "applyOp kvs (BDelete k) = filter (\<lambda>kv. fst kv \<noteq> k) kvs"

definition nextFault :: "IStore \<Rightarrow> bool \<times> IStore" where
  "nextFault s =
     (case faults s of
        [] \<Rightarrow> (False, s)
      | f # fs \<Rightarrow> (f, s\<lparr>faults := fs\<rparr>))"

definition Put :: "IStore \<Rightarrow> key \<Rightarrow> bytes \<Rightarrow> error option \<times> IStore" where
  "Put s k v =
     (case nextFault s of
        (True, s') \<Rightarrow> (Some WriteFailed, s')
      | (False, s') \<Rightarrow> (None, s'\<lparr>durable := writeKV k v (durable s')\<rparr>))"

definition NewBatch :: "IStore \<Rightarrow> IStore" where
  "NewBatch s = s\<lparr>batch := []\<rparr>"

definition BatchPut :: "IStore \<Rightarrow> key \<Rightarrow> bytes \<Rightarrow> IStore" where
  "BatchPut s k v = s\<lparr>batch := batch s @ [BPut k v]\<rparr>"

definition BatchDelete :: "IStore \<Rightarrow> key \<Rightarrow> IStore" where
  "BatchDelete s k = s\<lparr>batch := batch s @ [BDelete k]\<rparr>"

definition BatchCommit :: "IStore \<Rightarrow> error option \<times> IStore" where
  "BatchCommit s =
     (case nextFault s of
        (True, s') \<Rightarrow> (Some WriteFailed, s')
      | (False, s') \<Rightarrow> (None, s'\<lparr>durable := foldl applyOp (durable s') (batch s')\<rparr>))"

subsection \<open>The chain store and its collaborators\<close>

text \<open>
  \<open>ChainStore\<close> as declared in store.go. \<open>States\<close> is a pointer: \<open>None\<close> is nil.
  The header cache (type \<open>'hc\<close>) and the state view (type \<open>'st\<close>) are defined in
  other files of the package; the store only passes them on. The field \<open>blockCache\<close>
  is never read or written in store.go and is left out.
\<close>

record ('hc, 'st) ChainStore =
  st :: IStore
  headerCache :: 'hc
  States :: "'st option"
  currentBlockHash :: Uint256
  currentBlockHeight :: uint32

text \<open>
  Everything store.go takes from outside: the constants of package \<open>config\<close>, the
  codecs and hashes of blocks, headers and transactions, and the operations of the
  state view and of the header cache. The state transition stages the trie nodes it
  creates in the open batch and hands them back as a list of (node key, node) pairs;
  the pruning pass works on the engine directly.
\<close>

record ('hc, 'st) env =
  DBVersion :: byte
  RewardAdjustInterval :: uint32
  DonationAddress :: string
  DonationAdjustDividendFactor :: Fixed64
  DonationAdjustDivisorFactor :: Fixed64
  NKNAssetID :: Uint256
  BlockHeaderCacheSize :: uint32
  LivePruning :: bool
  StatePruningMode :: string
  BlockHash :: "Block \<Rightarrow> Uint256"
  TxHash :: "Transaction \<Rightarrow> Uint256"
  Trim :: "Block \<Rightarrow> error + bytes"
  FromTrimmedData :: "bytes \<Rightarrow> error + (Header \<times> Uint256 list)"
  ReadVarBytes :: "bytes \<Rightarrow> error + bytes"
  HeaderUnmarshal :: "bytes \<Rightarrow> error + Header"
  TxMarshal :: "Transaction \<Rightarrow> error + bytes"
  TxUnmarshal :: "bytes \<Rightarrow> error + Transaction"
  ToScriptHash :: "string \<Rightarrow> error + Uint160"
  NewStateDB :: "Uint256 \<Rightarrow> ('hc, 'st) ChainStore \<Rightarrow> error + 'st"
  GetBalance :: "'st \<Rightarrow> Uint256 \<Rightarrow> Uint160 \<Rightarrow> Fixed64"
  generateStateRoot ::
    "('hc, 'st) ChainStore \<Rightarrow> Block \<Rightarrow> bool \<Rightarrow> bool \<Rightarrow> (error + ('st \<times> Uint256)) \<times> (bytes \<times> bytes) list"
  StatePruneStatesLowMemory :: "'st \<Rightarrow> bool \<Rightarrow> IStore \<Rightarrow> error option \<times> IStore"
  AddHeaderToCache :: "Header \<Rightarrow> 'hc \<Rightarrow> 'hc"
  RemoveCachedHeader :: "uint32 \<Rightarrow> 'hc \<Rightarrow> 'hc"

section \<open>Read operations\<close>

text \<open>\<open>GetBlockHash\<close>, lines 152-159.\<close>

definition GetBlockHash :: "('hc, 'st) ChainStore \<Rightarrow> uint32 \<Rightarrow> error + Uint256" where
  "GetBlockHash cs height =
     (case Get (st cs) (BlockhashKey height) of
        Inl e \<Rightarrow> Inl e
      | Inr blockHash \<Rightarrow> Uint256ParseFromBytes blockHash)"

text \<open>\<open>GetHeader\<close>, lines 170-188.\<close>

definition GetHeader :: "('hc, 'st) env \<Rightarrow> ('hc, 'st) ChainStore \<Rightarrow> Uint256 \<Rightarrow> error + Header" where
  "GetHeader env cs hash =
     (case Get (st cs) (HeaderKey hash) of
        Inl e \<Rightarrow> Inl e
      | Inr data \<Rightarrow>
          (case ReadVarBytes env data of
             Inl e \<Rightarrow> Inl e
           | Inr dt \<Rightarrow> HeaderUnmarshal env dt))"

text \<open>\<open>IsBlockInStore\<close>, lines 258-264. The comparison is on unsigned 32-bit heights.\<close>

definition IsBlockInStore :: "('hc, 'st) env \<Rightarrow> ('hc, 'st) ChainStore \<Rightarrow> Uint256 \<Rightarrow> bool" where
  "IsBlockInStore env cs hash =
     (case GetHeader env cs hash of
        Inl e \<Rightarrow> False
      | Inr header \<Rightarrow>
          (if Height (UnsignedHeader header) > currentBlockHeight cs then False else True))"

text \<open>\<open>IsDoubleSpend\<close>, lines 468-470.\<close>

definition IsDoubleSpend :: "('hc, 'st) ChainStore \<Rightarrow> Transaction \<Rightarrow> bool" where
  "IsDoubleSpend cs tx = False"

text \<open>\<open>getTx\<close>, lines 208-222: the stored record is the inclusion height in four
  little-endian bytes followed by the serialized transaction.\<close>

definition getTx ::
  "('hc, 'st) env \<Rightarrow> ('hc, 'st) ChainStore \<Rightarrow> Uint256 \<Rightarrow> error + (Transaction \<times> uint32)" where
  "getTx env cs hash =
     (case Get (st cs) (TransactionKey hash) of
        Inl e \<Rightarrow> Inl e
      | Inr val \<Rightarrow>
          (case LittleEndianUint32 val of
             Inl e \<Rightarrow> Inl e
           | Inr height \<Rightarrow>
               (case sliceFrom4 val of
                  Inl e \<Rightarrow> Inl e
                | Inr val' \<Rightarrow>
                    (case TxUnmarshal env val' of
                       Inl e \<Rightarrow> Inl e
                     | Inr txn \<Rightarrow> Inr (txn, height)))))"

text \<open>\<open>GetTransaction\<close>, lines 199-206.\<close>

definition GetTransaction ::
  "('hc, 'st) env \<Rightarrow> ('hc, 'st) ChainStore \<Rightarrow> Uint256 \<Rightarrow> error + Transaction" where
  "GetTransaction env cs hash =
     (case getTx env cs hash of
        Inl e \<Rightarrow> Inl e
      | Inr (t, h) \<Rightarrow> Inr t)"

text \<open>
  \<open>GetBlock\<close>, lines 224-242. \<open>FromTrimmedData\<close> yields the header and, for each
  transaction, a placeholder that knows only its hash; the loop replaces each
  placeholder by the transaction stored under that hash.
\<close>

fun getBlockTransactions ::
  "('hc, 'st) env \<Rightarrow> ('hc, 'st) ChainStore \<Rightarrow> Uint256 list \<Rightarrow> error + Transaction list" where
  "getBlockTransactions env cs [] = Inr []"
| "getBlockTransactions env cs (h # hs) =
     (case getTx env cs h of
        Inl e \<Rightarrow> Inl e
      | Inr (t, height) \<Rightarrow>
          (case getBlockTransactions env cs hs of
             Inl e \<Rightarrow> Inl e
           | Inr ts \<Rightarrow> Inr (t # ts)))"

definition GetBlock ::
  "('hc, 'st) env \<Rightarrow> ('hc, 'st) ChainStore \<Rightarrow> Uint256 \<Rightarrow> error + Block" where
  "GetBlock env cs hash =
     (case Get (st cs) (HeaderKey hash) of
        Inl e \<Rightarrow> Inl e
      | Inr bHash \<Rightarrow>
          (case FromTrimmedData env bHash of
             Inl e \<Rightarrow> Inl e
           | Inr (header, hashes) \<Rightarrow>
               (case getBlockTransactions env cs hashes of
                  Inl e \<Rightarrow> Inl e
                | Inr txs \<Rightarrow> Inr \<lparr>Header = header, Transactions = txs\<rparr>)))"

text \<open>\<open>getCurrentBlockHashFromDB\<close>, lines 476-487. The error of \<open>Deserialize\<close> is
  dropped, as in the source.\<close>

definition getCurrentBlockHashFromDB ::
  "('hc, 'st) ChainStore \<Rightarrow> Uint256 \<times> uint32 \<times> error option" where
  "getCurrentBlockHashFromDB cs =
     (case Get (st cs) CurrentBlockHashKey of
        Inl e \<Rightarrow> (EmptyUint256, 0, Some e)
      | Inr data \<Rightarrow>
          (case Uint256Deserialize EmptyUint256 data of
             (blockHash, r) \<Rightarrow>
               (case ReadUint32 r of
                  Inl e \<Rightarrow> (blockHash, 0, Some e)
                | Inr (currentHeight, r') \<Rightarrow> (blockHash, currentHeight, None))))"

text \<open>\<open>GetCurrentBlockStateRoot\<close>, lines 489-501.\<close>

definition GetCurrentBlockStateRoot :: "('hc, 'st) ChainStore \<Rightarrow> error + Uint256" where
  "GetCurrentBlockStateRoot cs =
     (case Get (st cs) CurrentStateTrie of
        Inl e \<Rightarrow> Inl e
      | Inr currentState \<Rightarrow> Uint256ParseFromBytes currentState)"

section \<open>Donations\<close>

record Donation =
  DonationHeight :: uint32
  DonationAmount :: Fixed64

definition NewDonation :: "uint32 \<Rightarrow> Fixed64 \<Rightarrow> Donation" where
  "NewDonation height amount = \<lparr>DonationHeight = height, DonationAmount = amount\<rparr>"

text \<open>\<open>Donation.Serialize\<close> and \<open>Donation.Deserialize\<close>, lines 544-571.\<close>

definition DonationSerialize :: "Donation \<Rightarrow> bytes" where
  "DonationSerialize d = PutUint32 (DonationHeight d) @ Fixed64Serialize (DonationAmount d)"

definition DonationDeserialize :: "bytes \<Rightarrow> error + Donation" where
  "DonationDeserialize r =
     (case ReadUint32 r of
        Inl e \<Rightarrow> Inl e
      | Inr (h, r') \<Rightarrow>
          (case Fixed64Deserialize r' of
             Inl e \<Rightarrow> Inl e
           | Inr (a, r'') \<Rightarrow> Inr \<lparr>DonationHeight = h, DonationAmount = a\<rparr>))"

text \<open>
  Go's \<open>/\<close> on \<open>int64\<close>: the quotient is truncated towards zero and wraps around
  to 64 bits; a zero divisor panics and is handled by the callers.
\<close>

definition div64 :: "Fixed64 \<Rightarrow> Fixed64 \<Rightarrow> Fixed64" where
  "div64 a b = word_of_int (sint a sdiv sint b)"

text \<open>\<open>getDonation\<close>, lines 581-596. Division and multiplication are on \<open>uint32\<close>.\<close>

definition getDonation :: "('hc, 'st) env \<Rightarrow> ('hc, 'st) ChainStore \<Rightarrow> error + Donation" where
  "getDonation env cs =
     (if RewardAdjustInterval env = 0 then Inl Panic
      else
        let currentDonationHeight =
              currentBlockHeight cs div RewardAdjustInterval env * RewardAdjustInterval env
        in case Get (st cs) (DonationKey currentDonationHeight) of
             Inl e \<Rightarrow> Inl e
           | Inr data \<Rightarrow> DonationDeserialize data)"

text \<open>\<open>GetDonation\<close>, lines 573-579.\<close>

definition GetDonation :: "('hc, 'st) env \<Rightarrow> ('hc, 'st) ChainStore \<Rightarrow> error + Fixed64" where
  "GetDonation env cs =
     (case getDonation env cs of
        Inl e \<Rightarrow> Inl e
      | Inr donation \<Rightarrow> Inr (DonationAmount donation))"

text \<open>
  \<open>CalcNextDonation\<close>, lines 598-624. \<open>GetBalance env states asset addr\<close> stands for
  \<open>states.GetOrNewAccount(addr).GetBalance(asset)\<close>; a nil \<open>cs.States\<close> panics there.
  The balance and both factors are \<open>int64\<close>, the interval is converted to \<open>int64\<close>.
\<close>

definition CalcNextDonation ::
  "('hc, 'st) env \<Rightarrow> ('hc, 'st) ChainStore \<Rightarrow> uint32 \<Rightarrow> error + Donation" where
  "CalcNextDonation env cs height =
     (if height = 0 then Inr (NewDonation 0 0)
      else
        case getDonation env cs of
          Inl e \<Rightarrow> Inl e
        | Inr lastDonation \<Rightarrow>
            if DonationHeight lastDonation + RewardAdjustInterval env \<noteq> height
            then Inl InvalidHeightToUpdateDonation
            else
              (case ToScriptHash env (DonationAddress env) of
                 Inl e \<Rightarrow> Inl e
               | Inr donationAddress \<Rightarrow>
                   (case States cs of
                      None \<Rightarrow> Inl Panic
                    | Some states \<Rightarrow>
                        let amount = GetBalance env states (NKNAssetID env) donationAddress
                        in if DonationAdjustDivisorFactor env = 0 \<or> RewardAdjustInterval env = 0
                           then Inl Panic
                           else
                             let donation =
                                   div64 (amount * DonationAdjustDividendFactor env)
                                     (DonationAdjustDivisorFactor env);
                                 donationPerBlock = div64 donation (ucast (RewardAdjustInterval env))
                             in Inr (NewDonation height donationPerBlock))))"

section \<open>Historical state roots\<close>

text \<open>
  \<open>GetStateRoots\<close>, lines 626-650. The loop counter is a \<open>uint32\<close> and \<open>i++\<close> wraps
  around, so the loop need not end: the result \<open>None\<close> is a run that never returns.
\<close>

partial_function (option) getStateRootsLoop ::
  "('hc, 'st) env \<Rightarrow> ('hc, 'st) ChainStore \<Rightarrow> uint32 \<Rightarrow> uint32 \<Rightarrow> Uint256 list
     \<Rightarrow> (error + Uint256 list) option" where
  "getStateRootsLoop env cs i toHeight roots =
     (if i \<le> toHeight then
        (case GetBlockHash cs i of
           Inl e \<Rightarrow> Some (Inl e)
         | Inr headerHash \<Rightarrow>
             (case GetHeader env cs headerHash of
                Inl e \<Rightarrow> Some (Inl e)
              | Inr header \<Rightarrow>
                  (case Uint256ParseFromBytes (StateRoot (UnsignedHeader header)) of
                     Inl e \<Rightarrow> Some (Inl e)
                   | Inr stateRoot \<Rightarrow>
                       getStateRootsLoop env cs (i + 1) toHeight (roots @ [stateRoot]))))
      else Some (Inr roots))"

definition GetStateRoots ::
  "('hc, 'st) env \<Rightarrow> ('hc, 'st) ChainStore \<Rightarrow> uint32 \<Rightarrow> uint32 \<Rightarrow> (error + Uint256 list) option" where
  "GetStateRoots env cs fromHeight toHeight =
     (if toHeight < fromHeight then Some (Inl (ToHeightLessThanFromHeight toHeight fromHeight))
      else getStateRootsLoop env cs fromHeight toHeight [])"

section \<open>The persistence pipeline\<close>

text \<open>The \<open>switch\<close> on the payload type in \<open>persist\<close>, lines 313-327: the eleven
  cases pass, the default case is the error.\<close>

fun payloadTypeSupported :: "PayloadType \<Rightarrow> bool" where
  "payloadTypeSupported COINBASE_TYPE = True"
| "payloadTypeSupported SIG_CHAIN_TXN_TYPE = True"
| "payloadTypeSupported TRANSFER_ASSET_TYPE = True"
| "payloadTypeSupported ISSUE_ASSET_TYPE = True"
| "payloadTypeSupported REGISTER_NAME_TYPE = True"
| "payloadTypeSupported TRANSFER_NAME_TYPE = True"
| "payloadTypeSupported DELETE_NAME_TYPE = True"
| "payloadTypeSupported SUBSCRIBE_TYPE = True"
| "payloadTypeSupported UNSUBSCRIBE_TYPE = True"
| "payloadTypeSupported GENERATE_ID_TYPE = True"
| "payloadTypeSupported NANO_PAY_TYPE = True"
| "payloadTypeSupported (OTHER_TYPE n) = False"

text \<open>The loop over \<open>b.Transactions\<close>, lines 299-328: each transaction is staged
  before its payload type is looked at.\<close>

fun persistTransactions ::
  "('hc, 'st) env \<Rightarrow> uint32 \<Rightarrow> Transaction list \<Rightarrow> IStore \<Rightarrow> error option \<times> IStore" where
  "persistTransactions env height [] s = (None, s)"
| "persistTransactions env height (txn # txns) s =
     (case TxMarshal env txn of
        Inl e \<Rightarrow> (Some e, s)
      | Inr dt \<Rightarrow>
          (let buffer = PutUint32 height @ dt;
               s' = BatchPut s (TransactionKey (TxHash env txn)) buffer
           in if payloadTypeSupported (Type (Payload (UnsignedTx txn)))
              then persistTransactions env height txns s'
              else (Some UnsupportedTransactionType, s')))"

text \<open>The trie nodes written by the state transition go into the open batch.\<close>

definition stageTrieNodes :: "IStore \<Rightarrow> (bytes \<times> bytes) list \<Rightarrow> IStore" where
  "stageTrieNodes s nodes = foldl (\<lambda>s' (k, v). BatchPut s' (TrieNodeKey k) v) s nodes"

text \<open>The donation step of \<open>persist\<close>, lines 349-365. \<open>CalcNextDonation\<close> reads the
  store as it is before the commit: the old pointer and the old state view.\<close>

definition persistDonation ::
  "('hc, 'st) env \<Rightarrow> ('hc, 'st) ChainStore \<Rightarrow> uint32 \<Rightarrow> IStore \<Rightarrow> error option \<times> IStore" where
  "persistDonation env cs height s =
     (if RewardAdjustInterval env = 0 then (Some Panic, s)
      else if height mod RewardAdjustInterval env = 0 then
        (case CalcNextDonation env (cs\<lparr>st := s\<rparr>) height of
           Inl e \<Rightarrow> (Some e, s)
         | Inr donation \<Rightarrow> (None, BatchPut s (DonationKey height) (DonationSerialize donation)))
      else (None, s))"

text \<open>
  \<open>persist\<close>, lines 266-386, in two parts. \<open>NewBatch\<close> and \<open>BatchPut\<close> only touch
  the batch in memory, and writing into a \<open>bytes.Buffer\<close> does not fail; the engine can
  fail at \<open>BatchCommit\<close>. The first part, lines 267-328, opens the batch and stages
  the trimmed header, the height index entry and the transactions.
\<close>

definition stageHeaderAndTransactions ::
  "('hc, 'st) env \<Rightarrow> Block \<Rightarrow> IStore \<Rightarrow> error option \<times> IStore" where
  "stageHeaderAndTransactions env b s =
     (let s0 = NewBatch s;
          headerHash = BlockHash env b;
          height = Height (UnsignedHeader (Header b))
      in case Trim env b of
           Inl e \<Rightarrow> (Some e, s0)
         | Inr headerBuffer \<Rightarrow>
             (let s1 = BatchPut s0 (HeaderKey headerHash) headerBuffer;
                  headerHashBuffer = ToArray headerHash;
                  s2 = BatchPut s1 (BlockhashKey height) headerHashBuffer
              in persistTransactions env height (Transactions b) s2))"

text \<open>
  The second part, lines 330-386: state transition, root comparison, staging of the
  root, the donation and the chain pointer, and the commit. \<open>headerHashBuffer\<close> still
  holds the 32 bytes of the hash when the height is appended to it for the chain
  pointer record. \<open>cs.States\<close> is replaced only after the commit.
\<close>

definition persist ::
  "('hc, 'st) env \<Rightarrow> Block \<Rightarrow> ('hc, 'st) ChainStore \<Rightarrow> error option \<times> ('hc, 'st) ChainStore" where
  "persist env b cs =
     (let headerHash = BlockHash env b;
          headerHashBuffer = ToArray headerHash;
          height = Height (UnsignedHeader (Header b))
      in case stageHeaderAndTransactions env b (st cs) of
           (Some e, s3) \<Rightarrow> (Some e, cs\<lparr>st := s3\<rparr>)
         | (None, s3) \<Rightarrow>
             (case generateStateRoot env (cs\<lparr>st := s3\<rparr>) b (height \<noteq> 0) True of
                (Inl e, nodes) \<Rightarrow> (Some e, cs\<lparr>st := stageTrieNodes s3 nodes\<rparr>)
              | (Inr (states, root), nodes) \<Rightarrow>
                  (let s4 = stageTrieNodes s3 nodes
                   in case Uint256ParseFromBytes (StateRoot (UnsignedHeader (Header b))) of
                        Inl e \<Rightarrow> (Some e, cs\<lparr>st := s4\<rparr>)
                      | Inr headerRoot \<Rightarrow>
                          if root \<noteq> headerRoot
                          then (Some (StateRootNotEqual root headerRoot), cs\<lparr>st := s4\<rparr>)
                          else
                            (let s5 = BatchPut s4 CurrentStateTrie (ToArray root)
                             in case persistDonation env cs height s5 of
                                  (Some e, s6) \<Rightarrow> (Some e, cs\<lparr>st := s6\<rparr>)
                                | (None, s6) \<Rightarrow>
                                    (let s7 = BatchPut s6 CurrentBlockHashKey
                                                (headerHashBuffer @ PutUint32 height)
                                     in case BatchCommit s7 of
                                          (Some e, s8) \<Rightarrow> (Some e, cs\<lparr>st := s8\<rparr>)
                                        | (None, s8) \<Rightarrow>
                                            (None, cs\<lparr>st := s8, States := Some states\<rparr>))))))"

text \<open>\<open>PruneStatesLowMemory\<close>, lines 693-700.\<close>

definition PruneStatesLowMemory ::
  "('hc, 'st) env \<Rightarrow> bool \<Rightarrow> ('hc, 'st) ChainStore \<Rightarrow> error option \<times> ('hc, 'st) ChainStore" where
  "PruneStatesLowMemory env full cs =
     (case NewStateDB env EmptyUint256 cs of
        Inl e \<Rightarrow> (Some e, cs)
      | Inr state \<Rightarrow>
          (case StatePruneStatesLowMemory env state full (st cs) of
             (r, s') \<Rightarrow> (r, cs\<lparr>st := s'\<rparr>)))"

text \<open>\<open>SaveBlock\<close>, lines 388-417. The argument \<open>fastAdd\<close> is not used by the body.\<close>

definition SaveBlock ::
  "('hc, 'st) env \<Rightarrow> Block \<Rightarrow> bool \<Rightarrow> ('hc, 'st) ChainStore \<Rightarrow> error option \<times> ('hc, 'st) ChainStore" where
  "SaveBlock env b fastAdd cs =
     (case persist env b cs of
        (Some e, cs1) \<Rightarrow> (Some e, cs1)
      | (None, cs1) \<Rightarrow>
          (let cs2 = cs1\<lparr>currentBlockHeight := Height (UnsignedHeader (Header b)),
                         currentBlockHash := BlockHash env b\<rparr>;
               cs3 = (if currentBlockHeight cs2 > BlockHeaderCacheSize env
                      then cs2\<lparr>headerCache :=
                                 RemoveCachedHeader env
                                   (currentBlockHeight cs2 - BlockHeaderCacheSize env)
                                   (headerCache cs2)\<rparr>
                      else cs2);
               cs4 = cs3\<lparr>headerCache := AddHeaderToCache env (Header b) (headerCache cs3)\<rparr>
           in if LivePruning env \<and> StatePruningMode env = ''lowmem''
              then PruneStatesLowMemory env False cs4
              else (None, cs4)))"

section \<open>Opening the store\<close>

text \<open>\<open>ResetDB\<close>, lines 56-65: every key of the store is deleted in one batch.\<close>

definition ResetDB :: "IStore \<Rightarrow> error option \<times> IStore" where
  "ResetDB s = BatchCommit (foldl BatchDelete (NewBatch s) (map fst (durable s)))"

text \<open>
  \<open>InitLedgerStoreWithGenesisBlock\<close>, lines 67-142. The result is the pair the
  function returns, height and error, together with the store it leaves behind.
  \<open>version[0]\<close> panics on an empty value. The assignments to \<open>cs.States\<close>,
  \<open>cs.currentBlockHash\<close> and \<open>cs.currentBlockHeight\<close> take place before their error is
  tested; a failed \<open>NewStateDB\<close> hands back nil.
\<close>

definition initReset ::
  "('hc, 'st) env \<Rightarrow> Block \<Rightarrow> ('hc, 'st) ChainStore
     \<Rightarrow> (uint32 \<times> error option) \<times> ('hc, 'st) ChainStore" where
  "initReset env genesisBlock cs =
     (case ResetDB (st cs) of
        (Some e, s1) \<Rightarrow> ((0, Some (ResetDBError e)), cs\<lparr>st := s1\<rparr>)
      | (None, s1) \<Rightarrow>
          (let cs1 = cs\<lparr>st := s1\<rparr>
           in case NewStateDB env EmptyUint256 cs1 of
                Inl e \<Rightarrow> ((0, Some e), cs1\<lparr>States := None\<rparr>)
              | Inr states \<Rightarrow>
                  (case persist env genesisBlock (cs1\<lparr>States := Some states\<rparr>) of
                     (Some e, cs2) \<Rightarrow> ((0, Some e), cs2)
                   | (None, cs2) \<Rightarrow>
                       (case Put (st cs2) VersionKey [DBVersion env] of
                          (Some e, s3) \<Rightarrow> ((0, Some e), cs2\<lparr>st := s3\<rparr>)
                        | (None, s3) \<Rightarrow>
                            ((0, None),
                             cs2\<lparr>st := s3,
                                 headerCache :=
                                   AddHeaderToCache env (Header genesisBlock) (headerCache cs2),
                                 currentBlockHash := BlockHash env genesisBlock,
                                 currentBlockHeight := 0\<rparr>)))))"

definition initPrune ::
  "('hc, 'st) env \<Rightarrow> ('hc, 'st) ChainStore \<Rightarrow> error option \<times> ('hc, 'st) ChainStore" where
  "initPrune env cs =
     (if StatePruningMode env = ''lowmem'' then PruneStatesLowMemory env True cs
      else if StatePruningMode env = ''none'' then (None, cs)
      else (Some (UnknownStatePruningMode (StatePruningMode env)), cs))"

definition InitLedgerStoreWithGenesisBlock ::
  "('hc, 'st) env \<Rightarrow> Block \<Rightarrow> ('hc, 'st) ChainStore
     \<Rightarrow> (uint32 \<times> error option) \<times> ('hc, 'st) ChainStore" where
  "InitLedgerStoreWithGenesisBlock env genesisBlock cs =
     (let version = (case Get (st cs) VersionKey of Inl e \<Rightarrow> [0] | Inr v \<Rightarrow> v)
      in if version = [] then ((0, Some Panic), cs)
         else if version ! 0 \<noteq> DBVersion env then initReset env genesisBlock cs
         else if \<not> IsBlockInStore env cs (BlockHash env genesisBlock)
         then ((0, Some GenesisBlockNotInBlockStore), cs)
         else
           (case getCurrentBlockHashFromDB cs of
              (hash, height, err) \<Rightarrow>
                (let cs1 = cs\<lparr>currentBlockHash := hash, currentBlockHeight := height\<rparr>
                 in case err of
                      Some e \<Rightarrow> ((0, Some e), cs1)
                    | None \<Rightarrow>
                        (case GetHeader env cs1 (currentBlockHash cs1) of
                           Inl e \<Rightarrow> ((0, Some e), cs1)
                         | Inr currentHeader \<Rightarrow>
                             (let cs2 = cs1\<lparr>headerCache :=
                                              AddHeaderToCache env currentHeader (headerCache cs1)\<rparr>
                              in case GetCurrentBlockStateRoot cs2 of
                                   Inl e \<Rightarrow> ((0, None), cs2)
                                 | Inr root \<Rightarrow>
                                     (case NewStateDB env root cs2 of
                                        Inl e \<Rightarrow> ((0, Some e), cs2\<lparr>States := None\<rparr>)
                                      | Inr states \<Rightarrow>
                                          (case initPrune env (cs2\<lparr>States := Some states\<rparr>) of
                                             (Some e, cs3) \<Rightarrow> ((0, Some e), cs3)
                                           | (None, cs3) \<Rightarrow>
                                               ((currentBlockHeight cs3, None), cs3))))))))"

declare getStateRootsLoop.simps [code]

section \<open>A small instance\<close>

text \<open>
  A concrete environment on which the functions above can be run: headers and
  transactions are encoded by a few bytes, the state view is the balance of the
  treasury, the root computed for a block is 32 copies of the number of its
  transactions, and the header cache is a list. \<open>exampleStore1\<close> is the empty store
  after the genesis block, \<open>exampleStore10\<close> after one more block at height 10.
\<close>

definition exampleTx :: "PayloadType \<Rightarrow> byte \<Rightarrow> Transaction" where
  "exampleTx ty n =
     \<lparr>UnsignedTx = \<lparr>Payload = \<lparr>Type = ty, Data = [n]\<rparr>, TxRest = []\<rparr>, Programs = []\<rparr>"

definition exampleHeader :: "uint32 \<Rightarrow> bytes \<Rightarrow> Header" where
  "exampleHeader h root =
     \<lparr>UnsignedHeader = \<lparr>Height = h, StateRoot = root, HeaderRest = []\<rparr>, Signature = []\<rparr>"

definition exampleBlock :: "uint32 \<Rightarrow> bytes \<Rightarrow> Transaction list \<Rightarrow> Block" where
  "exampleBlock h root txs = \<lparr>Header = exampleHeader h root, Transactions = txs\<rparr>"

definition exampleDecodeHeader :: "bytes \<Rightarrow> error + Header" where
  "exampleDecodeHeader bs =
     (if length bs < 36 then Inl (External ''short header'')
      else case LittleEndianUint32 (take 4 bs) of
             Inl e \<Rightarrow> Inl e
           | Inr h \<Rightarrow> Inr (exampleHeader h (take 32 (drop 4 bs))))"

definition exampleTxHash :: "Transaction \<Rightarrow> Uint256" where
  "exampleTxHash t = (case Data (Payload (UnsignedTx t)) of [] \<Rightarrow> 0 | n # ns \<Rightarrow> ucast n)"

definition exampleRoot :: "Block \<Rightarrow> bytes" where
  "exampleRoot b = replicate 32 (of_nat (length (Transactions b)))"

definition exampleEnv :: "(Header list, Fixed64) env" where
  "exampleEnv =
     \<lparr>DBVersion = 1,
      RewardAdjustInterval = 10,
      DonationAddress = ''treasury'',
      DonationAdjustDividendFactor = 1,
      DonationAdjustDivisorFactor = 2,
      NKNAssetID = 0,
      BlockHeaderCacheSize = 2,
      LivePruning = True,
      StatePruningMode = ''lowmem'',
      BlockHash = (\<lambda>b. ucast (Height (UnsignedHeader (Header b))) + 1000),
      TxHash = exampleTxHash,
      Trim = (\<lambda>b. Inr (PutUint32 (Height (UnsignedHeader (Header b)))
                        @ StateRoot (UnsignedHeader (Header b))
                        @ concat (map (\<lambda>t. Data (Payload (UnsignedTx t))) (Transactions b)))),
      FromTrimmedData = (\<lambda>bs. case exampleDecodeHeader bs of
                                 Inl e \<Rightarrow> Inl e
                               | Inr hdr \<Rightarrow> Inr (hdr, map ucast (drop 36 bs))),
      ReadVarBytes = (\<lambda>bs. Inr (take 36 bs)),
      HeaderUnmarshal = exampleDecodeHeader,
      TxMarshal = (\<lambda>t. Inr (Data (Payload (UnsignedTx t)))),
      TxUnmarshal = (\<lambda>bs. case bs of
                             [n] \<Rightarrow> Inr (exampleTx TRANSFER_ASSET_TYPE n)
                           | _ \<Rightarrow> Inl (External ''bad transaction'')),
      ToScriptHash = (\<lambda>s. Inr 7),
      NewStateDB = (\<lambda>root cs. Inr 1000),
      GetBalance = (\<lambda>states asset addr. states),
      generateStateRoot =
        (\<lambda>cs b genesisBlockInitialized needBeCommitted.
           case States cs of
             None \<Rightarrow> (Inl (External ''no state view''), [])
           | Some v \<Rightarrow> (Inr (v + 100, Uint256FromArray (exampleRoot b)), [(exampleRoot b, [1])])),
      StatePruneStatesLowMemory = (\<lambda>states full s. (None, s)),
      AddHeaderToCache = (\<lambda>h c. h # c),
      RemoveCachedHeader = (\<lambda>n c. filter (\<lambda>h. Height (UnsignedHeader h) \<noteq> n) c)\<rparr>"

definition exampleStore :: "(Header list, Fixed64) ChainStore" where
  "exampleStore =
     \<lparr>st = \<lparr>durable = [], batch = [], faults = []\<rparr>,
      headerCache = [],
      States = Some 1000,
      currentBlockHash = 0,
      currentBlockHeight = 0\<rparr>"

definition exampleGenesis :: Block where
  "exampleGenesis = exampleBlock 0 (replicate 32 0) []"

definition exampleStore1 :: "(Header list, Fixed64) ChainStore" where
  "exampleStore1 = snd (SaveBlock exampleEnv exampleGenesis False exampleStore)"

definition exampleBlock10 :: Block where
  "exampleBlock10 =
     exampleBlock 10 (replicate 32 2)
       [exampleTx TRANSFER_ASSET_TYPE 5, exampleTx TRANSFER_ASSET_TYPE 6]"

definition exampleStore10 :: "(Header list, Fixed64) ChainStore" where
  "exampleStore10 = snd (SaveBlock exampleEnv exampleBlock10 False exampleStore1)"

definition exampleBadRoot :: Block where
  "exampleBadRoot = exampleBlock 1 (replicate 32 9) [exampleTx TRANSFER_ASSET_TYPE 5]"

definition exampleBadType :: Block where
  "exampleBadType =
     exampleBlock 1 (replicate 32 2)
       [exampleTx TRANSFER_ASSET_TYPE 5, exampleTx (OTHER_TYPE 99) 6]"

section \<open>Properties\<close>

subsection \<open>Staging leaves the durable store alone\<close>

lemma BatchPut_fields [simp]:
  "durable (BatchPut s k v) = durable s"
  "faults (BatchPut s k v) = faults s"
  "batch (BatchPut s k v) = batch s @ [BPut k v]"
  by (simp_all add: BatchPut_def)

lemma NewBatch_fields [simp]:
  "durable (NewBatch s) = durable s"
  "faults (NewBatch s) = faults s"
  "batch (NewBatch s) = []"
  by (simp_all add: NewBatch_def)

lemma persistTransactions_durable [simp]:
  "durable (snd (persistTransactions env h txs s)) = durable s"
  by (induction txs arbitrary: s) (auto simp: Let_def split: sum.splits)

lemma persistTransactions_faults [simp]:
  "faults (snd (persistTransactions env h txs s)) = faults s"
  by (induction txs arbitrary: s) (auto simp: Let_def split: sum.splits)

lemma stageTrieNodes_durable [simp]:
  "durable (stageTrieNodes s nodes) = durable s"
  unfolding stageTrieNodes_def
  by (induction nodes arbitrary: s) (auto split: prod.splits)

lemma stageTrieNodes_faults [simp]:
  "faults (stageTrieNodes s nodes) = faults s"
  unfolding stageTrieNodes_def
  by (induction nodes arbitrary: s) (auto split: prod.splits)

lemma persistDonation_durable [simp]:
  "durable (snd (persistDonation env cs h s)) = durable s"
  by (simp add: persistDonation_def split: sum.splits)

lemma stageHeaderAndTransactions_durable [simp]:
  "durable (snd (stageHeaderAndTransactions env b s)) = durable s"
  by (simp add: stageHeaderAndTransactions_def Let_def split: sum.splits)

lemma BatchCommit_failed:
  "fst (BatchCommit s) = Some e \<Longrightarrow> durable (snd (BatchCommit s)) = durable s"
  by (auto simp: BatchCommit_def nextFault_def split: list.splits bool.splits if_splits)

lemma persistDonation_durableD:
  "persistDonation env cs h s = (r, s') \<Longrightarrow> durable s' = durable s"
  using persistDonation_durable [of env cs h s] by simp

lemma stageHeaderAndTransactions_durableD:
  "stageHeaderAndTransactions env b s = (r, s') \<Longrightarrow> durable s' = durable s"
  using stageHeaderAndTransactions_durable [of env b s] by simp

lemma BatchCommit_failedD:
  "BatchCommit s = (Some e, s') \<Longrightarrow> durable s' = durable s"
  using BatchCommit_failed [of s e] by simp

lemma persist_failure_cases:
  "case persist env b cs of
     (None, cs') \<Rightarrow> True
   | (Some e, cs') \<Rightarrow> durable (st cs') = durable (st cs) \<and> States cs' = States cs"
  by (auto simp: persist_def Let_def
           split: sum.split prod.split option.split
           dest!: persistDonation_durableD stageHeaderAndTransactions_durableD BatchCommit_failedD)

lemma persist_failure_atomic:
  assumes "fst (persist env b cs) = Some e"
  shows "durable (st (snd (persist env b cs))) = durable (st cs)
       \<and> States (snd (persist env b cs)) = States cs"
  using assms persist_failure_cases [where env = env and b = b and cs = cs]
  by (cases "persist env b cs") auto

lemma persist_pointer:
  "currentBlockHeight (snd (persist env b cs)) = currentBlockHeight cs
   \<and> currentBlockHash (snd (persist env b cs)) = currentBlockHash cs
   \<and> headerCache (snd (persist env b cs)) = headerCache cs"
  by (simp add: persist_def Let_def split: sum.splits prod.splits option.splits)

lemma persistTransactions_unsupported:
  assumes "\<forall>t \<in> set txs. \<exists>dt. TxMarshal env t = Inr dt"
    and "\<exists>t \<in> set txs. \<not> payloadTypeSupported (Type (Payload (UnsignedTx t)))"
  shows "fst (persistTransactions env h txs s) = Some UnsupportedTransactionType"
  using assms
  by (induction txs arbitrary: s) (auto simp: Let_def split: sum.splits)

lemma payloadTypeSupported_iff:
  "payloadTypeSupported ty \<longleftrightarrow>
     ty \<in> {COINBASE_TYPE, SIG_CHAIN_TXN_TYPE, TRANSFER_ASSET_TYPE, ISSUE_ASSET_TYPE,
           REGISTER_NAME_TYPE, TRANSFER_NAME_TYPE, DELETE_NAME_TYPE, SUBSCRIBE_TYPE,
           UNSUBSCRIBE_TYPE, GENERATE_ID_TYPE, NANO_PAY_TYPE}"
  by (cases ty) simp_all

subsection \<open>Signed 64-bit division\<close>

lemma abs_div_le: "\<bar>k\<bar> div \<bar>l\<bar> \<le> \<bar>k :: int\<bar>"
  by (metis abs_0 abs_ge_zero div_by_0 div_by_1 linorder_not_less
    zabs_less_one_iff zdiv_mono2)

lemma abs_div_lt: "\<bar>l\<bar> \<noteq> 1 \<Longrightarrow> k \<noteq> 0 \<Longrightarrow> \<bar>k\<bar> div \<bar>l\<bar> < \<bar>k :: int\<bar>"
  by (metis abs_div_le abs_ge_zero int_div_less_self
    int_one_le_iff_zero_less nonneg1_imp_zdiv_pos_iff
    order_le_imp_less_or_eq zero_less_abs_iff)

lemma sdiv_int_bounds:
  fixes k l :: int
  assumes "- N \<le> k" "k < N" "\<not> (k = - N \<and> l = - 1)"
  shows "- N \<le> k sdiv l \<and> k sdiv l < N"
proof -
  have q: "\<bar>k\<bar> div \<bar>l\<bar> \<le> \<bar>k\<bar>" by (rule abs_div_le)
  have q0: "0 \<le> \<bar>k\<bar> div \<bar>l\<bar>"
    by (simp add: div_int_pos_iff)
  have a: "\<bar>k sdiv l\<bar> \<le> \<bar>k\<bar>"
    using q q0 by (simp add: signed_divide_int_def abs_mult abs_sgn_eq)
  show ?thesis
  proof (cases "k = - N")
    case False
    then have "\<bar>k\<bar> < N" using assms by auto
    with a show ?thesis by auto
  next
    case True
    then have l: "l \<noteq> - 1" using assms by simp
    show ?thesis
    proof (cases "l = 1")
      case True
      then show ?thesis using assms by simp
    next
      case False
      show ?thesis
      proof (cases "k = 0")
        case True
        then show ?thesis using assms by auto
      next
        case k0: False
        have "\<bar>l\<bar> \<noteq> 1" using l False by auto
        then have "\<bar>k\<bar> div \<bar>l\<bar> < \<bar>k\<bar>" using k0 by (rule abs_div_lt)
        then have "\<bar>k sdiv l\<bar> < \<bar>k\<bar>"
          using q0 by (simp add: signed_divide_int_def abs_mult abs_sgn_eq)
        then show ?thesis using assms by auto
      qed
    qed
  qed
qed

text \<open>Unless the quotient overflows (the least value divided by minus one), \<open>div64\<close>
  is the quotient of the two signed values, truncated towards zero.\<close>

lemma sint_div64:
  assumes "\<not> (sint a = - (2 ^ 63) \<and> sint b = - 1)"
  shows "sint (div64 a b) = sint a sdiv sint b"
proof -
  have r: "- (2 ^ 63) \<le> sint a \<and> sint a < 2 ^ 63"
    using sint_range_size [of a] by (simp add: word_size)
  have "- (2 ^ 63) \<le> sint a sdiv sint b \<and> sint a sdiv sint b < 2 ^ 63"
    using r assms by (intro sdiv_int_bounds) auto
  then show ?thesis
    by (simp add: div64_def sint_sbintrunc' signed_take_bit_int_eq_self)
qed

lemma sint_ucast_interval: "sint (ucast (i :: uint32) :: Fixed64) = uint i"
proof -
  have hi: "uint i < 2 ^ 63"
    using uint_bounded [of i] by simp
  have lo: "- (2 ^ 63) \<le> uint i"
    by (rule order_trans [of _ 0]) simp_all
  have "sint (ucast i :: Fixed64) = sint (word_of_int (uint i) :: Fixed64)"
    by (simp only: ucast_eq)
  also have "\<dots> = signed_take_bit 63 (uint i)"
    by (simp only: sint_sbintrunc') simp
  also have "\<dots> = uint i"
    using lo hi by (rule signed_take_bit_int_eq_self)
  finally show ?thesis .
qed

lemma sint_mult64:
  "- (2 ^ 63) \<le> sint (a :: Fixed64) * sint b \<Longrightarrow> sint a * sint b < 2 ^ 63
     \<Longrightarrow> sint (a * b) = sint a * sint b"
  by (simp add: sint_word_mult signed_take_bit_int_eq_self)

subsection \<open>Membership in the store\<close>

text \<open>
  Claim C7. \<open>IsBlockInStore\<close> answers false when no header is stored under the hash,
  and false when the stored header's height is strictly greater than
  \<open>currentBlockHeight\<close>; it answers true for every hash whose stored header has a
  height at or below \<open>currentBlockHeight\<close>.
\<close>

theorem C7_IsBlockInStore:
  "(map_of (durable (st cs)) (HeaderKey h) = None \<longrightarrow> \<not> IsBlockInStore env cs h)
   \<and> (\<forall>header. GetHeader env cs h = Inr header \<and> currentBlockHeight cs < Height (UnsignedHeader header)
          \<longrightarrow> \<not> IsBlockInStore env cs h)
   \<and> (\<forall>header. GetHeader env cs h = Inr header \<and> Height (UnsignedHeader header) \<le> currentBlockHeight cs
          \<longrightarrow> IsBlockInStore env cs h)"
  by (auto simp: IsBlockInStore_def GetHeader_def Get_def split: sum.splits option.splits)

theorem C7_witness:
  "(map_of (durable (st exampleStore10)) (HeaderKey 77) = None
      \<and> \<not> IsBlockInStore exampleEnv exampleStore10 77)
   \<and> (GetHeader exampleEnv (exampleStore10\<lparr>currentBlockHeight := 3\<rparr>) 1010
          = Inr (exampleHeader 10 (replicate 32 2))
      \<and> currentBlockHeight (exampleStore10\<lparr>currentBlockHeight := 3\<rparr>)
          < Height (UnsignedHeader (exampleHeader 10 (replicate 32 2)))
      \<and> \<not> IsBlockInStore exampleEnv (exampleStore10\<lparr>currentBlockHeight := 3\<rparr>) 1010)
   \<and> (GetHeader exampleEnv exampleStore10 1000 = Inr (exampleHeader 0 (replicate 32 0))
      \<and> Height (UnsignedHeader (exampleHeader 0 (replicate 32 0))) \<le> currentBlockHeight exampleStore10
      \<and> IsBlockInStore exampleEnv exampleStore10 1000)"
proof -
  have a: "map_of (durable (st exampleStore10)) (HeaderKey 77) = None"
    by code_simp
  have b: "GetHeader exampleEnv (exampleStore10\<lparr>currentBlockHeight := 3\<rparr>) 1010
             = Inr (exampleHeader 10 (replicate 32 2))
           \<and> currentBlockHeight (exampleStore10\<lparr>currentBlockHeight := 3\<rparr>)
               < Height (UnsignedHeader (exampleHeader 10 (replicate 32 2)))"
    by code_simp
  have c: "GetHeader exampleEnv exampleStore10 1000 = Inr (exampleHeader 0 (replicate 32 0))
           \<and> Height (UnsignedHeader (exampleHeader 0 (replicate 32 0))) \<le> currentBlockHeight exampleStore10"
    by code_simp
  show ?thesis
    using a b c
      C7_IsBlockInStore [of exampleStore10 77 exampleEnv]
      C7_IsBlockInStore [of "exampleStore10\<lparr>currentBlockHeight := 3\<rparr>" 1010 exampleEnv]
      C7_IsBlockInStore [of exampleStore10 1000 exampleEnv]
    by blast
qed

subsection \<open>Donations\<close>

text \<open>
  Claim C3. \<open>CalcNextDonation\<close> at height 0 returns the record with height 0 and
  amount 0. At a height \<open>h > 0\<close> it fails unless the record that \<open>getDonation\<close>
  retrieves has a height which, increased by the reward adjustment interval (in
  \<open>uint32\<close> arithmetic, as the code adds), equals \<open>h\<close>: a failed retrieval is handed
  on, a different height is the error "invalid height to update donation", and a
  success implies the equality.
\<close>

theorem C3_CalcNextDonation_continuity:
  "CalcNextDonation env cs 0 = Inr \<lparr>DonationHeight = 0, DonationAmount = 0\<rparr>
   \<and> (h \<noteq> 0 \<longrightarrow>
        (\<forall>e. getDonation env cs = Inl e \<longrightarrow> CalcNextDonation env cs h = Inl e)
      \<and> (\<forall>last. getDonation env cs = Inr last
             \<and> DonationHeight last + RewardAdjustInterval env \<noteq> h
             \<longrightarrow> CalcNextDonation env cs h = Inl InvalidHeightToUpdateDonation)
      \<and> (\<forall>d. CalcNextDonation env cs h = Inr d
             \<longrightarrow> (\<exists>last. getDonation env cs = Inr last
                   \<and> DonationHeight last + RewardAdjustInterval env = h)))"
  by (auto simp: CalcNextDonation_def NewDonation_def Let_def
           split: sum.splits option.splits if_splits)

theorem C3_witness:
  "CalcNextDonation exampleEnv exampleStore1 0 = Inr \<lparr>DonationHeight = 0, DonationAmount = 0\<rparr>
   \<and> (10 :: uint32) \<noteq> 0
   \<and> getDonation exampleEnv exampleStore = Inl NotFound
   \<and> CalcNextDonation exampleEnv exampleStore 10 = Inl NotFound
   \<and> (20 :: uint32) \<noteq> 0
   \<and> getDonation exampleEnv exampleStore1 = Inr \<lparr>DonationHeight = 0, DonationAmount = 0\<rparr>
   \<and> DonationHeight \<lparr>DonationHeight = 0, DonationAmount = 0\<rparr> + RewardAdjustInterval exampleEnv \<noteq> 20
   \<and> CalcNextDonation exampleEnv exampleStore1 20 = Inl InvalidHeightToUpdateDonation
   \<and> CalcNextDonation exampleEnv exampleStore1 10 = Inr \<lparr>DonationHeight = 10, DonationAmount = 55\<rparr>
   \<and> (\<exists>last. getDonation exampleEnv exampleStore1 = Inr last
          \<and> DonationHeight last + RewardAdjustInterval exampleEnv = 10)"
proof -
  have a: "getDonation exampleEnv exampleStore = Inl NotFound"
    by code_simp
  have b: "getDonation exampleEnv exampleStore1 = Inr \<lparr>DonationHeight = 0, DonationAmount = 0\<rparr>"
    by code_simp
  have c: "DonationHeight \<lparr>DonationHeight = 0, DonationAmount = 0\<rparr> + RewardAdjustInterval exampleEnv \<noteq> 20"
    by code_simp
  have d: "CalcNextDonation exampleEnv exampleStore1 10 = Inr \<lparr>DonationHeight = 10, DonationAmount = 55\<rparr>"
    by code_simp
  have n: "(10 :: uint32) \<noteq> 0" "(20 :: uint32) \<noteq> 0"
    by simp_all
  from a b c d n
    C3_CalcNextDonation_continuity [of exampleEnv exampleStore1 20]
    C3_CalcNextDonation_continuity [of exampleEnv exampleStore 10]
    C3_CalcNextDonation_continuity [of exampleEnv exampleStore1 10]
  show ?thesis by blast
qed

text \<open>
  Claim C4. When \<open>CalcNextDonation\<close> succeeds at a height \<open>h > 0\<close>, the state view
  exists and, with \<open>X\<close> the treasury balance it reports, the amount of the record is
  \<open>((X * dividendFactor) / divisorFactor) / rewardAdjustInterval\<close> in Go's \<open>int64\<close>
  arithmetic, each division truncating towards zero. Whenever the product fits into
  64 bits (and the first quotient does not overflow), this is the same number as the
  truncated quotients of the mathematical integers.
\<close>

theorem C4_CalcNextDonation_amount:
  assumes "h \<noteq> 0" and "CalcNextDonation env cs h = Inr d"
  shows "\<exists>states addr X.
           States cs = Some states
         \<and> ToScriptHash env (DonationAddress env) = Inr addr
         \<and> X = GetBalance env states (NKNAssetID env) addr
         \<and> DonationHeight d = h
         \<and> DonationAmount d =
             div64 (div64 (X * DonationAdjustDividendFactor env) (DonationAdjustDivisorFactor env))
                   (ucast (RewardAdjustInterval env))
         \<and> (- (2 ^ 63) \<le> sint X * sint (DonationAdjustDividendFactor env)
            \<and> sint X * sint (DonationAdjustDividendFactor env) < 2 ^ 63
            \<and> \<not> (sint X * sint (DonationAdjustDividendFactor env) = - (2 ^ 63)
                  \<and> sint (DonationAdjustDivisorFactor env) = - 1)
            \<longrightarrow> sint (DonationAmount d) =
                  ((sint X * sint (DonationAdjustDividendFactor env))
                     sdiv sint (DonationAdjustDivisorFactor env))
                  sdiv uint (RewardAdjustInterval env))"
proof -
  from assms obtain states addr where
    st: "States cs = Some states" and
    ad: "ToScriptHash env (DonationAddress env) = Inr addr" and
    d: "d = NewDonation h
              (div64 (div64 (GetBalance env states (NKNAssetID env) addr
                               * DonationAdjustDividendFactor env)
                            (DonationAdjustDivisorFactor env))
                     (ucast (RewardAdjustInterval env)))"
    by (auto simp: CalcNextDonation_def Let_def split: sum.splits option.splits if_splits)
  define X where "X = GetBalance env states (NKNAssetID env) addr"
  define D where "D = DonationAdjustDividendFactor env"
  define V where "V = DonationAdjustDivisorFactor env"
  define I where "I = RewardAdjustInterval env"
  have amount: "DonationAmount d = div64 (div64 (X * D) V) (ucast I)"
    by (simp add: d NewDonation_def X_def D_def V_def I_def)
  have height: "DonationHeight d = h"
    by (simp add: d NewDonation_def)
  have exact: "sint (DonationAmount d) = ((sint X * sint D) sdiv sint V) sdiv uint I"
    if lo: "- (2 ^ 63) \<le> sint X * sint D" and hi: "sint X * sint D < 2 ^ 63"
      and nov: "\<not> (sint X * sint D = - (2 ^ 63) \<and> sint V = - 1)"
  proof -
    have m: "sint (X * D) = sint X * sint D"
      using lo hi by (rule sint_mult64)
    have q: "sint (div64 (X * D) V) = (sint X * sint D) sdiv sint V"
      using nov by (simp add: sint_div64 m)
    have "uint I \<noteq> - 1"
      using uint_ge_0 [of I] by linarith
    then have "sint (div64 (div64 (X * D) V) (ucast I))
                 = sint (div64 (X * D) V) sdiv sint (ucast I :: Fixed64)"
      by (intro sint_div64) (simp add: sint_ucast_interval)
    then show ?thesis
      by (simp add: amount q sint_ucast_interval)
  qed
  show ?thesis
    using st ad amount height exact
    unfolding X_def D_def V_def I_def by blast
qed

theorem C4_witness:
  "(10 :: uint32) \<noteq> 0
   \<and> CalcNextDonation exampleEnv exampleStore1 10 = Inr \<lparr>DonationHeight = 10, DonationAmount = 55\<rparr>
   \<and> States exampleStore1 = Some 1100
   \<and> ToScriptHash exampleEnv (DonationAddress exampleEnv) = Inr 7
   \<and> GetBalance exampleEnv 1100 (NKNAssetID exampleEnv) 7 = 1100
   \<and> DonationAmount \<lparr>DonationHeight = 10, DonationAmount = 55\<rparr>
        = div64 (div64 (1100 * DonationAdjustDividendFactor exampleEnv)
                       (DonationAdjustDivisorFactor exampleEnv))
                (ucast (RewardAdjustInterval exampleEnv))
   \<and> sint (DonationAmount \<lparr>DonationHeight = 10, DonationAmount = 55\<rparr>)
        = ((sint (1100 :: Fixed64) * sint (DonationAdjustDividendFactor exampleEnv))
             sdiv sint (DonationAdjustDivisorFactor exampleEnv))
          sdiv uint (RewardAdjustInterval exampleEnv)"
proof -
  have n: "(10 :: uint32) \<noteq> 0" by simp
  have d: "CalcNextDonation exampleEnv exampleStore1 10 = Inr \<lparr>DonationHeight = 10, DonationAmount = 55\<rparr>"
    by code_simp
  have s: "States exampleStore1 = Some 1100"
    by code_simp
  have e: "ToScriptHash exampleEnv (DonationAddress exampleEnv) = Inr 7"
    "GetBalance exampleEnv 1100 (NKNAssetID exampleEnv) 7 = 1100"
    "DonationAdjustDividendFactor exampleEnv = 1"
    "DonationAdjustDivisorFactor exampleEnv = 2"
    by (simp_all add: exampleEnv_def)
  from C4_CalcNextDonation_amount [OF n d] s e n d
  show ?thesis by (simp add: signed_divide_int_def)
qed

subsection \<open>Failures of persist\<close>

text \<open>
  Claim C1. When \<open>persist\<close> has staged the header and the transactions of a block
  and the root computed by the state transition differs from the root declared in
  the block's header, \<open>persist\<close> returns the error "state root not equal" naming the
  computed and the declared root; the batch is not committed: the durable store, the
  chain pointer and the state view are what they were before the call.
\<close>

theorem C1_persist_state_root_mismatch:
  assumes staged: "stageHeaderAndTransactions env b (st cs) = (None, s3)"
    and computed: "generateStateRoot env (cs\<lparr>st := s3\<rparr>) b
                     (Height (UnsignedHeader (Header b)) \<noteq> 0) True = (Inr (states, root), nodes)"
    and declared: "Uint256ParseFromBytes (StateRoot (UnsignedHeader (Header b))) = Inr headerRoot"
    and differ: "root \<noteq> headerRoot"
  shows "fst (persist env b cs) = Some (StateRootNotEqual root headerRoot)
       \<and> durable (st (snd (persist env b cs))) = durable (st cs)
       \<and> currentBlockHeight (snd (persist env b cs)) = currentBlockHeight cs
       \<and> currentBlockHash (snd (persist env b cs)) = currentBlockHash cs
       \<and> States (snd (persist env b cs)) = States cs"
proof -
  have r: "persist env b cs =
             (Some (StateRootNotEqual root headerRoot), cs\<lparr>st := stageTrieNodes s3 nodes\<rparr>)"
    using assms by (simp add: persist_def Let_def)
  have "durable s3 = durable (st cs)"
    using staged by (rule stageHeaderAndTransactions_durableD)
  then show ?thesis by (simp add: r)
qed

theorem C1_witness:
  "stageHeaderAndTransactions exampleEnv exampleBadRoot (st exampleStore1)
     = (None, snd (stageHeaderAndTransactions exampleEnv exampleBadRoot (st exampleStore1)))
   \<and> generateStateRoot exampleEnv
        (exampleStore1\<lparr>st := snd (stageHeaderAndTransactions exampleEnv exampleBadRoot (st exampleStore1))\<rparr>)
        exampleBadRoot (Height (UnsignedHeader (Header exampleBadRoot)) \<noteq> 0) True
       = (Inr (1200, Uint256FromArray (replicate 32 1)), [(replicate 32 1, [1])])
   \<and> Uint256ParseFromBytes (StateRoot (UnsignedHeader (Header exampleBadRoot)))
       = Inr (Uint256FromArray (replicate 32 9))
   \<and> Uint256FromArray (replicate 32 1) \<noteq> Uint256FromArray (replicate 32 9)
   \<and> fst (persist exampleEnv exampleBadRoot exampleStore1)
       = Some (StateRootNotEqual (Uint256FromArray (replicate 32 1)) (Uint256FromArray (replicate 32 9)))
   \<and> durable (st (snd (persist exampleEnv exampleBadRoot exampleStore1))) = durable (st exampleStore1)
   \<and> currentBlockHeight (snd (persist exampleEnv exampleBadRoot exampleStore1)) = currentBlockHeight exampleStore1
   \<and> currentBlockHash (snd (persist exampleEnv exampleBadRoot exampleStore1)) = currentBlockHash exampleStore1
   \<and> States (snd (persist exampleEnv exampleBadRoot exampleStore1)) = States exampleStore1"
proof -
  have "fst (stageHeaderAndTransactions exampleEnv exampleBadRoot (st exampleStore1)) = None"
    by code_simp
  then have a: "stageHeaderAndTransactions exampleEnv exampleBadRoot (st exampleStore1)
     = (None, snd (stageHeaderAndTransactions exampleEnv exampleBadRoot (st exampleStore1)))"
    by (simp add: prod_eq_iff)
  have b: "generateStateRoot exampleEnv
        (exampleStore1\<lparr>st := snd (stageHeaderAndTransactions exampleEnv exampleBadRoot (st exampleStore1))\<rparr>)
        exampleBadRoot (Height (UnsignedHeader (Header exampleBadRoot)) \<noteq> 0) True
       = (Inr (1200, Uint256FromArray (replicate 32 1)), [(replicate 32 1, [1])])"
    by code_simp
  have c: "Uint256ParseFromBytes (StateRoot (UnsignedHeader (Header exampleBadRoot)))
       = Inr (Uint256FromArray (replicate 32 9))"
    by code_simp
  have d: "Uint256FromArray (replicate 32 1) \<noteq> Uint256FromArray (replicate 32 9)"
    by code_simp
  from C1_persist_state_root_mismatch [OF a b c d] a b c d
  show ?thesis by simp
qed

text \<open>
  Claim C2. A block with at least one transaction whose payload type is none of the
  eleven recognised kinds makes \<open>persist\<close> fail with "unsupported transaction type"
  (the block's encoders succeeding); the batch is not committed: the durable store
  and the chain pointer are what they were before the call.
\<close>

theorem C2_persist_unsupported_transaction_type:
  assumes trim: "Trim env b = Inr headerBuffer"
    and marshal: "\<forall>t \<in> set (Transactions b). \<exists>dt. TxMarshal env t = Inr dt"
    and unknown: "\<exists>t \<in> set (Transactions b).
                     Type (Payload (UnsignedTx t)) \<notin>
                       {COINBASE_TYPE, SIG_CHAIN_TXN_TYPE, TRANSFER_ASSET_TYPE, ISSUE_ASSET_TYPE,
                        REGISTER_NAME_TYPE, TRANSFER_NAME_TYPE, DELETE_NAME_TYPE, SUBSCRIBE_TYPE,
                        UNSUBSCRIBE_TYPE, GENERATE_ID_TYPE, NANO_PAY_TYPE}"
  shows "fst (persist env b cs) = Some UnsupportedTransactionType
       \<and> durable (st (snd (persist env b cs))) = durable (st cs)
       \<and> currentBlockHeight (snd (persist env b cs)) = currentBlockHeight cs
       \<and> currentBlockHash (snd (persist env b cs)) = currentBlockHash cs"
proof -
  from unknown have u: "\<exists>t \<in> set (Transactions b). \<not> payloadTypeSupported (Type (Payload (UnsignedTx t)))"
    by (simp only: payloadTypeSupported_iff)
  have "fst (stageHeaderAndTransactions env b (st cs)) = Some UnsupportedTransactionType"
    using trim persistTransactions_unsupported [OF marshal u]
    by (simp add: stageHeaderAndTransactions_def Let_def)
  then have f: "fst (persist env b cs) = Some UnsupportedTransactionType"
    by (auto simp: persist_def Let_def split: prod.splits option.splits)
  from persist_failure_atomic [OF f] persist_pointer [of env b cs] f
  show ?thesis by simp
qed


theorem C2_witness:
  "Trim exampleEnv exampleBadType = Inr (PutUint32 1 @ replicate 32 2 @ [5, 6])
   \<and> Transactions exampleBadType
        = [exampleTx TRANSFER_ASSET_TYPE 5, exampleTx (OTHER_TYPE 99) 6]
   \<and> TxMarshal exampleEnv (exampleTx TRANSFER_ASSET_TYPE 5) = Inr [5]
   \<and> TxMarshal exampleEnv (exampleTx (OTHER_TYPE 99) 6) = Inr [6]
   \<and> Type (Payload (UnsignedTx (exampleTx (OTHER_TYPE 99) 6))) \<notin>
            {COINBASE_TYPE, SIG_CHAIN_TXN_TYPE, TRANSFER_ASSET_TYPE, ISSUE_ASSET_TYPE,
             REGISTER_NAME_TYPE, TRANSFER_NAME_TYPE, DELETE_NAME_TYPE, SUBSCRIBE_TYPE,
             UNSUBSCRIBE_TYPE, GENERATE_ID_TYPE, NANO_PAY_TYPE}
   \<and> fst (persist exampleEnv exampleBadType exampleStore1) = Some UnsupportedTransactionType
   \<and> durable (st (snd (persist exampleEnv exampleBadType exampleStore1))) = durable (st exampleStore1)
   \<and> currentBlockHeight (snd (persist exampleEnv exampleBadType exampleStore1)) = currentBlockHeight exampleStore1
   \<and> currentBlockHash (snd (persist exampleEnv exampleBadType exampleStore1)) = currentBlockHash exampleStore1"
proof -
  have a: "Trim exampleEnv exampleBadType = Inr (PutUint32 1 @ replicate 32 2 @ [5, 6])"
    by (simp add: exampleEnv_def exampleBadType_def exampleBlock_def exampleHeader_def exampleTx_def)
  have b: "\<forall>t \<in> set (Transactions exampleBadType). \<exists>dt. TxMarshal exampleEnv t = Inr dt"
    by (simp add: exampleEnv_def)
  have c: "\<exists>t \<in> set (Transactions exampleBadType).
          Type (Payload (UnsignedTx t)) \<notin>
            {COINBASE_TYPE, SIG_CHAIN_TXN_TYPE, TRANSFER_ASSET_TYPE, ISSUE_ASSET_TYPE,
             REGISTER_NAME_TYPE, TRANSFER_NAME_TYPE, DELETE_NAME_TYPE, SUBSCRIBE_TYPE,
             UNSUBSCRIBE_TYPE, GENERATE_ID_TYPE, NANO_PAY_TYPE}"
    by (simp add: exampleBadType_def exampleBlock_def exampleTx_def)
  have d: "Transactions exampleBadType
        = [exampleTx TRANSFER_ASSET_TYPE 5, exampleTx (OTHER_TYPE 99) 6]"
    "TxMarshal exampleEnv (exampleTx TRANSFER_ASSET_TYPE 5) = Inr [5]"
    "TxMarshal exampleEnv (exampleTx (OTHER_TYPE 99) 6) = Inr [6]"
    "Type (Payload (UnsignedTx (exampleTx (OTHER_TYPE 99) 6))) \<notin>
            {COINBASE_TYPE, SIG_CHAIN_TXN_TYPE, TRANSFER_ASSET_TYPE, ISSUE_ASSET_TYPE,
             REGISTER_NAME_TYPE, TRANSFER_NAME_TYPE, DELETE_NAME_TYPE, SUBSCRIBE_TYPE,
             UNSUBSCRIBE_TYPE, GENERATE_ID_TYPE, NANO_PAY_TYPE}"
    by (simp_all add: exampleEnv_def exampleBadType_def exampleBlock_def exampleTx_def)
  from C2_persist_unsupported_transaction_type [OF a b c, of exampleStore1] a d
  show ?thesis by blast
qed

text \<open>
  Claim C9. For every transaction and every state of the store, \<open>IsDoubleSpend\<close>
  answers false: this store performs no double-spend detection.
\<close>

theorem C9_IsDoubleSpend_always_false:
  "IsDoubleSpend cs tx = False"
  by (simp add: IsDoubleSpend_def)

end
